theory Spec2Isabelle
  imports Main
begin

section \<open>bci\_build.package: container image descriptors\<close>

text \<open>
  A shallow embedding of \<^verbatim>\<open>src/bci_build/package/__init__.py\<close>: the image descriptor
  dataclasses, their validation in \<^verbatim>\<open>__post_init__\<close>, the derivation of build tags and
  of the pull reference, the \<^verbatim>\<open>packages\<close> property and \<^verbatim>\<open>write_files_to_folder\<close>.
  Python exceptions are values of \<open>error\<close> on the left of a sum; strings are
  \<open>string\<close>; the destination folder is a map from files, known by their canonical
  paths, to their contents.
\<close>

subsection \<open>Strings and Python built-ins\<close>

datatype error =
    ValueError string
  | IndexError string
  | AssertionError string

text \<open>Characters that cannot be written inside a string literal.\<close>

definition nl :: string where
  "nl = [CHR 0x0A]"

definition sq :: string where
  "sq = [CHR 0x27]"

text \<open>\<^verbatim>\<open>str(n)\<close> for a Python int: decimal digits, a minus sign for negatives.\<close>

definition digit_char :: "nat \<Rightarrow> char" where
  "digit_char d = char_of (48 + d)"

function str_nat :: "nat \<Rightarrow> string" where
  "str_nat n = (if n < 10 then [digit_char n] else str_nat (n div 10) @ [digit_char (n mod 10)])"
  by pat_completeness auto
termination
  by (relation "measure id") auto

declare str_nat.simps [simp del]

definition str_int :: "int \<Rightarrow> string" where
  "str_int i = (if i < 0 then ''-'' @ str_nat (nat (- i)) else str_nat (nat i))"

text \<open>\<^verbatim>\<open>sep.join(items)\<close>.\<close>

fun str_join :: "string \<Rightarrow> string list \<Rightarrow> string" where
  "str_join sep [] = []"
| "str_join sep [x] = x"
| "str_join sep (x # y # ys) = x @ sep @ str_join sep (y # ys)"

text \<open>\<^verbatim>\<open>sub in s\<close> on strings: \<open>sub\<close> occurs as a contiguous piece of \<open>s\<close>.\<close>

fun starts_with :: "string \<Rightarrow> string \<Rightarrow> bool" where
  "starts_with s [] = True"
| "starts_with [] (c # cs) = False"
| "starts_with (d # ds) (c # cs) = (d = c \<and> starts_with ds cs)"





text \<open>
  \<^verbatim>\<open>xs.index(x)\<close> guarded by \<^verbatim>\<open>x in xs\<close>: the position of the first occurrence, or
  \<open>None\<close> when \<open>x\<close> is not in the list (where the guard is false).
\<close>

fun index_of :: "'a \<Rightarrow> 'a list \<Rightarrow> nat option" where
  "index_of x [] = None"
| "index_of x (y # ys) =
     (if x = y then Some 0 else (case index_of x ys of None \<Rightarrow> None | Some i \<Rightarrow> Some (Suc i)))"

text \<open>\<^verbatim>\<open>os.path.join(dest, fname)\<close> on POSIX, for two components.\<close>

definition path_join :: "string \<Rightarrow> string \<Rightarrow> string" where
  "path_join a b =
     (if starts_with b ''/'' then b
      else if a = [] \<or> last a = CHR ''/'' then a @ b
      else a @ ''/'' @ b)"

subsection \<open>Enumerations\<close>

datatype Arch = X86_64 | AARCH64 | PPC64LE | S390X | LOCAL

fun Arch_value :: "Arch \<Rightarrow> string" where
  "Arch_value X86_64 = ''x86_64''"
| "Arch_value AARCH64 = ''aarch64''"
| "Arch_value PPC64LE = ''ppc64le''"
| "Arch_value S390X = ''s390x''"
| "Arch_value LOCAL = ''local''"

fun Arch_name :: "Arch \<Rightarrow> string" where
  "Arch_name X86_64 = ''X86_64''"
| "Arch_name AARCH64 = ''AARCH64''"
| "Arch_name PPC64LE = ''PPC64LE''"
| "Arch_name S390X = ''S390X''"
| "Arch_name LOCAL = ''LOCAL''"

text \<open>\<^verbatim>\<open>repr\<close> of an enum member and of a list of them, as the f-string \<^verbatim>\<open>{x=}\<close> prints.\<close>

definition Arch_repr :: "Arch \<Rightarrow> string" where
  "Arch_repr a = ''<Arch.'' @ Arch_name a @ '': '' @ sq @ Arch_value a @ sq @ ''>''"

definition Arch_list_repr :: "Arch list \<Rightarrow> string" where
  "Arch_list_repr xs = ''['' @ str_join '', '' (map Arch_repr xs) @ '']''"

datatype BuildType = DOCKER | KIWI

datatype PackageType = DELETE | UNINSTALL | BOOTSTRAP | IMAGE

fun PackageType_str :: "PackageType \<Rightarrow> string" where
  "PackageType_str DELETE = ''delete''"
| "PackageType_str UNINSTALL = ''uninstall''"
| "PackageType_str BOOTSTRAP = ''bootstrap''"
| "PackageType_str IMAGE = ''image''"

datatype OsVersion = SP6 | SP5 | SP4 | SP3 | TUMBLEWEED | BASALT

subsection \<open>Packages\<close>

text \<open>
  The dataclass \<^verbatim>\<open>Package\<close>, and an entry of \<^verbatim>\<open>package_list\<close>, which is either a plain
  \<^verbatim>\<open>str\<close> or a \<^verbatim>\<open>Package\<close>.
\<close>

datatype Package = Package (pkg_name: string) (pkg_type: PackageType)

datatype PackageEntry = PkgStr string | PkgObj Package

fun PackageEntry_str :: "PackageEntry \<Rightarrow> string" where
  "PackageEntry_str (PkgStr s) = s"
| "PackageEntry_str (PkgObj p) = pkg_name p"

subsection \<open>Vendor properties\<close>

record ImageProperties =
  ip_maintainer :: string
  vendor :: string
  distribution_base_name :: string
  registry :: string
  url :: string
  eula :: string
  lifecycle_url :: string
  label_prefix :: string
  build_tag_prefix :: string
  application_container_build_tag_prefix :: string
  based_on_container_description :: "string option"

fun build_tag_prefix_of :: "OsVersion \<Rightarrow> string" where
  "build_tag_prefix_of TUMBLEWEED = ''opensuse/bci''"
| "build_tag_prefix_of BASALT = ''alp/bci''"
| "build_tag_prefix_of SP3 = ''suse/ltss/sle15.3''"
| "build_tag_prefix_of v = ''bci''"

definition OPENSUSE_IMAGE_PROPS :: ImageProperties where
  "OPENSUSE_IMAGE_PROPS = \<lparr>
     ip_maintainer = ''openSUSE (https://www.opensuse.org/)'',
     vendor = ''openSUSE Project'',
     distribution_base_name = ''openSUSE Tumbleweed'',
     registry = ''registry.opensuse.org'',
     url = ''https://www.opensuse.org'',
     eula = ''sle-bci'',
     lifecycle_url = ''https://en.opensuse.org/Lifetime'',
     label_prefix = ''org.opensuse'',
     build_tag_prefix = build_tag_prefix_of TUMBLEWEED,
     application_container_build_tag_prefix = ''opensuse'',
     based_on_container_description = None \<rparr>"

definition SLE_IMAGE_PROPS :: ImageProperties where
  "SLE_IMAGE_PROPS = \<lparr>
     ip_maintainer = ''SUSE LLC (https://www.suse.com/)'',
     vendor = ''SUSE LLC'',
     distribution_base_name = ''SLE'',
     registry = ''registry.suse.com'',
     url = ''https://www.suse.com/products/server/'',
     eula = ''sle-bci'',
     lifecycle_url = ''https://www.suse.com/lifecycle#suse-linux-enterprise-server-15'',
     label_prefix = ''com.suse'',
     build_tag_prefix = build_tag_prefix_of SP5,
     application_container_build_tag_prefix = ''suse'',
     based_on_container_description = None \<rparr>"

definition SLE_15_SP3_LTSS_IMAGE_PROPS :: ImageProperties where
  "SLE_15_SP3_LTSS_IMAGE_PROPS = \<lparr>
     ip_maintainer = ''SUSE LLC (https://www.suse.com/)'',
     vendor = ''SUSE LLC'',
     distribution_base_name = ''SLE LTSS'',
     registry = ''registry.suse.com'',
     url = ''https://www.suse.com/products/server/'',
     eula = ''sle-eula'',
     lifecycle_url = ''https://www.suse.com/lifecycle#suse-linux-enterprise-server-15'',
     label_prefix = ''com.suse'',
     build_tag_prefix = build_tag_prefix_of SP3,
     application_container_build_tag_prefix = ''suse'',
     based_on_container_description = None \<rparr>"

definition BASALT_IMAGE_PROPS :: ImageProperties where
  "BASALT_IMAGE_PROPS = \<lparr>
     ip_maintainer = ''SUSE LLC (https://www.suse.com/)'',
     vendor = ''SUSE LLC'',
     distribution_base_name = ''Basalt Project'',
     registry = ''registry.suse.com'',
     url = ''https://susealp.io/'',
     eula = ''sle-bci'',
     lifecycle_url = ''https://www.suse.com/lifecycle'',
     label_prefix = ''com.suse.basalt'',
     build_tag_prefix = build_tag_prefix_of BASALT,
     application_container_build_tag_prefix = ''suse'',
     based_on_container_description =
       Some ''based on the SUSE Adaptable Linux Platform (ALP)'' \<rparr>"

subsection \<open>The image descriptor\<close>

text \<open>
  The three concrete classes share the fields of \<^verbatim>\<open>BaseContainerImage\<close>;
  \<^verbatim>\<open>LanguageStackContainer\<close> adds \<^verbatim>\<open>version\<close>, \<^verbatim>\<open>stability_tag\<close>,
  \<^verbatim>\<open>additional_versions\<close> and \<^verbatim>\<open>version_in_uid\<close>, and
  \<^verbatim>\<open>ApplicationStackContainer\<close> inherits from it. The descriptor is one record with the
  class in \<open>cls\<close>; the four language-stack fields are read only where \<open>cls\<close> is not
  \<open>OsContainer\<close> (an \<^verbatim>\<open>OsContainer\<close> object has no such attributes). The record holds
  the fields that the functions below read; the remaining dataclass fields
  (\<^verbatim>\<open>entrypoint\<close>, \<^verbatim>\<open>cmd\<close>, \<^verbatim>\<open>env\<close>, labels and the like) are read by the templates
  only.
\<close>

datatype ContainerClass = OsContainer | LanguageStackContainer | ApplicationStackContainer

text \<open>\<^verbatim>\<open>version: Union[str, int]\<close>.\<close>

datatype Version = VStr string | VInt int

fun Version_str :: "Version \<Rightarrow> string" where
  "Version_str (VStr s) = s"
| "Version_str (VInt i) = str_int i"

fun Version_truthy :: "Version \<Rightarrow> bool" where
  "Version_truthy (VStr s) = (s \<noteq> [])"
| "Version_truthy (VInt i) = (i \<noteq> 0)"

text \<open>\<^verbatim>\<open>Union[str, bytes]\<close>, the contents of a file.\<close>

datatype FileContents = Text string | Bytes "nat list"

record Image =
  cls :: ContainerClass
  name :: string
  pretty_name :: string
  package_name :: string
  os_version :: OsVersion
  exclusive_arch :: "Arch list option"
  is_latest :: bool
  package_list :: "PackageEntry list"
  custom_end :: string
  config_sh_script :: string
  config_sh_interpreter :: string
  maintainer :: "string option"
  extra_files :: "(string \<times> FileContents) list"
  additional_names :: "string list"
  build_recipe_type :: "BuildType option"
  image_properties :: ImageProperties
  version :: Version
  stability_tag :: "string option"
  additional_versions :: "string list"
  version_in_uid :: bool

text \<open>Truth value of an \<^verbatim>\<open>Optional[str]\<close>: neither \<^verbatim>\<open>None\<close> nor empty.\<close>

fun opt_str_truthy :: "string option \<Rightarrow> bool" where
  "opt_str_truthy None = False"
| "opt_str_truthy (Some s) = (s \<noteq> [])"

definition is_opensuse :: "Image \<Rightarrow> bool" where
  "is_opensuse self = (os_version self = TUMBLEWEED)"

subsection \<open>Construction: \<^verbatim>\<open>__post_init__\<close>\<close>

text \<open>
  The check \<^verbatim>\<open>self.exclusive_arch and Arch.LOCAL in self.exclusive_arch\<close> with the
  error it raises.
\<close>

fun local_in_exclusive_arch :: "Arch list option \<Rightarrow> error option" where
  "local_in_exclusive_arch None = None"
| "local_in_exclusive_arch (Some archs) =
     (if archs \<noteq> [] \<and> LOCAL \<in> set archs
      then Some (ValueError (Arch_value LOCAL @ '' must not appear in self.exclusive_arch=''
                   @ Arch_list_repr archs))
      else None)"

definition BaseContainerImage_post_init :: "Image \<Rightarrow> error + Image" where
  "BaseContainerImage_post_init self =
     (if package_list self = [] then
        Inl (ValueError (''No packages were added to '' @ pretty_name self @ ''.''))
      else case local_in_exclusive_arch (exclusive_arch self) of
        Some e \<Rightarrow> Inl e
      | None \<Rightarrow>
        if config_sh_script self \<noteq> [] \<and> custom_end self \<noteq> [] then
          Inl (ValueError
            ''Cannot specify both a custom_end and a config.sh script! Use just config_sh_script.'')
        else
          let self1 = (if build_recipe_type self = None
                       then self\<lparr>build_recipe_type :=
                              Some (if os_version self = SP3 then KIWI else DOCKER)\<rparr>
                       else self);
              self2 = self1\<lparr>image_properties :=
                        (if is_opensuse self1 then OPENSUSE_IMAGE_PROPS
                         else if os_version self1 = BASALT then BASALT_IMAGE_PROPS
                         else if os_version self1 = SP3 then SLE_15_SP3_LTSS_IMAGE_PROPS
                         else SLE_IMAGE_PROPS)\<rparr>;
              self3 = (if \<not> opt_str_truthy (maintainer self2)
                       then self2\<lparr>maintainer := Some (ip_maintainer (image_properties self2))\<rparr>
                       else self2)
          in Inr self3)"

definition LanguageStackContainer_post_init :: "Image \<Rightarrow> error + Image" where
  "LanguageStackContainer_post_init self =
     (case BaseContainerImage_post_init self of
        Inl e \<Rightarrow> Inl e
      | Inr self1 \<Rightarrow>
          if \<not> Version_truthy (version self1)
          then Inl (ValueError ''A language stack container requires a version'')
          else Inr self1)"

text \<open>
  Constructing an object of class \<open>cls\<close> from the given field values: the dataclass
  \<^verbatim>\<open>__init__\<close> stores the fields and calls the \<^verbatim>\<open>__post_init__\<close> of the class.
\<close>

definition construct :: "Image \<Rightarrow> error + Image" where
  "construct self =
     (case cls self of
        OsContainer \<Rightarrow> BaseContainerImage_post_init self
      | LanguageStackContainer \<Rightarrow> LanguageStackContainer_post_init self
      | ApplicationStackContainer \<Rightarrow> LanguageStackContainer_post_init self)"

subsection \<open>Derived properties\<close>

definition image_registry :: "Image \<Rightarrow> string" where
  "image_registry self = registry (image_properties self)"

text \<open>
  \<^verbatim>\<open>_registry_prefix\<close>: the property of \<^verbatim>\<open>BaseContainerImage\<close>, overridden in
  \<^verbatim>\<open>ApplicationStackContainer\<close>.
\<close>

definition registry_prefix :: "Image \<Rightarrow> string" where
  "registry_prefix self =
     (case cls self of
        ApplicationStackContainer \<Rightarrow>
          application_container_build_tag_prefix (image_properties self)
      | _ \<Rightarrow> build_tag_prefix (image_properties self))"

definition version_label :: "Image \<Rightarrow> string" where
  "version_label self =
     (case cls self of
        OsContainer \<Rightarrow> ''%OS_VERSION_ID_SP%.%RELEASE%''
      | _ \<Rightarrow> Version_str (version self))"

definition uid :: "Image \<Rightarrow> string" where
  "uid self =
     (case cls self of
        OsContainer \<Rightarrow> name self
      | _ \<Rightarrow> (if version_in_uid self then name self @ ''-'' @ Version_str (version self)
              else name self))"

definition STABILITY_TAG_ORDERING :: "string option list" where
  "STABILITY_TAG_ORDERING = [None, Some ''stable'', Some ''oldstable'']"

definition stability_suffix :: "Image \<Rightarrow> string" where
  "stability_suffix self =
     (case (if opt_str_truthy (stability_tag self)
            then index_of (stability_tag self) STABILITY_TAG_ORDERING else None) of
        Some i \<Rightarrow> str_nat i
      | None \<Rightarrow> [])"

definition release_suffix :: "Image \<Rightarrow> string" where
  "release_suffix self =
     (if stability_suffix self \<noteq> [] then stability_suffix self @ ''.%RELEASE%''
      else ''%RELEASE%'')"

text \<open>
  \<^verbatim>\<open>LanguageStackContainer.build_tags\<close>. The outer loop runs over the primary name and
  then the additional names, the inner loop over the version labels; each round appends
  to \<^verbatim>\<open>tags\<close>, so the result is the concatenation of the rounds.
\<close>

definition LanguageStackContainer_build_tags :: "Image \<Rightarrow> string list" where
  "LanguageStackContainer_build_tags self =
     concat (map (\<lambda>nm.
       (let ver_labels0 = [version_label self];
            ver_labels = (case stability_tag self of
                            None \<Rightarrow> ver_labels0
                          | Some t \<Rightarrow> if t \<noteq> [] then [t] @ ver_labels0 else ver_labels0)
        in concat (map (\<lambda>ver_label.
             [registry_prefix self @ ''/'' @ nm @ '':'' @ ver_label,
              registry_prefix self @ ''/'' @ nm @ '':'' @ ver_label @ ''-''
                @ release_suffix self])
             (ver_labels @ additional_versions self))
           @ (if is_latest self then [registry_prefix self @ ''/'' @ nm @ '':latest''] else [])))
       ([name self] @ additional_names self))"

definition LanguageStackContainer_reference :: "Image \<Rightarrow> string" where
  "LanguageStackContainer_reference self =
     (image_registry self @ ''/'' @ registry_prefix self @ ''/'' @ name self)
     @ ('':'' @ version_label self @ ''-'' @ release_suffix self)"

definition OsContainer_build_tags :: "Image \<Rightarrow> string list" where
  "OsContainer_build_tags self =
     concat (map (\<lambda>nm.
       [registry_prefix self @ ''/bci-'' @ nm @ '':%OS_VERSION_ID_SP%'',
        registry_prefix self @ ''/bci-'' @ nm @ '':'' @ version_label self]
       @ (if is_latest self then [registry_prefix self @ ''/bci-'' @ nm @ '':latest''] else []))
       ([name self] @ additional_names self))"

definition OsContainer_reference :: "Image \<Rightarrow> string" where
  "OsContainer_reference self =
     image_registry self @ ''/'' @ registry_prefix self @ ''/bci-'' @ name self
     @ '':'' @ version_label self"

definition build_tags :: "Image \<Rightarrow> string list" where
  "build_tags self =
     (case cls self of
        OsContainer \<Rightarrow> OsContainer_build_tags self
      | _ \<Rightarrow> LanguageStackContainer_build_tags self)"

definition reference :: "Image \<Rightarrow> string" where
  "reference self =
     (case cls self of
        OsContainer \<Rightarrow> OsContainer_reference self
      | _ \<Rightarrow> LanguageStackContainer_reference self)"

subsection \<open>The \<^verbatim>\<open>packages\<close> property\<close>

text \<open>The loop of \<^verbatim>\<open>packages\<close>: the error raised at the first offending entry, if any.\<close>

fun packages_check :: "PackageEntry list \<Rightarrow> error option" where
  "packages_check [] = None"
| "packages_check (PkgStr s # ps) = packages_check ps"
| "packages_check (PkgObj p # ps) =
     (if pkg_type p \<noteq> IMAGE
      then Some (ValueError (''Cannot add a package of type '' @ PackageType_str (pkg_type p)
                   @ '' into a Dockerfile based build.''))
      else packages_check ps)"

definition packages :: "Image \<Rightarrow> error + string" where
  "packages self =
     (case packages_check (package_list self) of
        Some e \<Rightarrow> Inl e
      | None \<Rightarrow> Inr (str_join '' '' (map PackageEntry_str (package_list self))))"

subsection \<open>Writing the files\<close>


type_synonym task = "string \<times> FileContents"

text \<open>
  What \<^verbatim>\<open>write_files_to_folder\<close> takes from outside this module:
  \<^item> the three templates of \<^verbatim>\<open>bci_build.templates\<close>, whose \<^verbatim>\<open>render\<close> is a function of
    the image that returns the text or raises;
  \<^item> the clock, read through \<^verbatim>\<open>strftime("%Y")\<close> and \<^verbatim>\<open>strftime("%a %b %d %X %Z %Y")\<close>;
  \<^item> the file system's resolution of a path to the canonical path of the file it names
    (what \<^verbatim>\<open>os.path.realpath\<close> computes), used by \<^verbatim>\<open>os.path.exists\<close> and by every
    write;
  \<^item> the event loop: when the coroutine raises, the tasks already created with
    \<^verbatim>\<open>asyncio.ensure_future\<close> are scheduled but \<^verbatim>\<open>asyncio.gather\<close> is never reached;
    \<open>runs_after_raise\<close> says which of them still perform their write before the loop
    stops.
\<close>

record Env =
  DOCKERFILE_TEMPLATE_render :: "Image \<Rightarrow> error + string"
  KIWI_TEMPLATE_render :: "Image \<Rightarrow> error + string"
  SERVICE_TEMPLATE_render :: "Image \<Rightarrow> error + string"
  now_year :: string
  now_changes_date :: string
  realpath :: "string \<Rightarrow> string"
  runs_after_raise :: "task \<Rightarrow> bool"

definition BASH_SET :: string where
  "BASH_SET = ''set -euo pipefail''"

definition config_sh :: "Env \<Rightarrow> Image \<Rightarrow> error + string" where
  "config_sh env self =
     (if config_sh_script self = [] \<and> custom_end self \<noteq> [] then
        Inl (ValueError
          ''This image cannot be build as a kiwi image, it has a `custom_end` set.'')
      else
        Inr (str_join nl
         [''#!'' @ config_sh_interpreter self,
          ''# SPDX-License-Identifier: MIT'',
          ''# SPDX-FileCopyrightText: (c) 2022-'' @ now_year env @ '' SUSE LLC'',
          '''',
          BASH_SET,
          '''',
          ''test -f /.kconfig && . /.kconfig'',
          ''test -f /.profile && . /.profile'',
          '''',
          ''echo \"Configure image: [$kiwi_iname]...\"'',
          '''',
          ''#============================================'',
          ''# Import repositories' keys if rpm is present'',
          ''#--------------------------------------------'',
          ''if command -v rpm > /dev/null; then'',
          ''    suseImportBuildKey'',
          ''fi'',
          '''',
          config_sh_script self,
          '''',
          ''#======================================='',
          ''# Clean up after zypper if it is present'',
          ''#---------------------------------------'',
          ''if command -v zypper > /dev/null; then'',
          ''    zypper -n clean'',
          ''fi'',
          '''',
          ''rm -rf /var/log/zypp'',
          '''',
          ''exit 0''] @ nl))"



text \<open>
  The branch on \<^verbatim>\<open>build_recipe_type\<close>: the outcome, which is an exception or the file
  names appended to \<^verbatim>\<open>files\<close>, and the tasks created up to that point. Indexing the
  rendered Dockerfile at \<^verbatim>\<open>-1\<close> raises on an empty string; \<^verbatim>\<open>config_sh\<close> is read after
  the task for the kiwi file has been created; the last branch is the \<^verbatim>\<open>assert False\<close>.
\<close>

definition build_description_tasks ::
  "Env \<Rightarrow> Image \<Rightarrow> string \<Rightarrow> (error + string list) \<times> task list" where
  "build_description_tasks env self dest =
     (case build_recipe_type self of
        Some DOCKER \<Rightarrow>
          (case DOCKERFILE_TEMPLATE_render env self of
             Inl e \<Rightarrow> (Inl e, [])
           | Inr dockerfile \<Rightarrow>
               if dockerfile = [] then (Inl (IndexError ''string index out of range''), [])
               else (Inr [''Dockerfile''],
                     [(path_join dest ''Dockerfile'',
                       Text (if last dockerfile \<noteq> CHR 0x0A then dockerfile @ nl
                             else dockerfile))]))
      | Some KIWI \<Rightarrow>
          (case KIWI_TEMPLATE_render env self of
             Inl e \<Rightarrow> (Inl e, [])
           | Inr kiwi \<Rightarrow>
               (case config_sh env self of
                  Inl e \<Rightarrow>
                    (Inl e, [(path_join dest (package_name self @ ''.kiwi''), Text kiwi)])
                | Inr sh \<Rightarrow>
                    (Inr ([package_name self @ ''.kiwi'']
                            @ (if sh \<noteq> [] then [''config.sh''] else [])),
                     [(path_join dest (package_name self @ ''.kiwi''), Text kiwi)]
                       @ (if sh \<noteq> [] then [(path_join dest ''config.sh'', Text sh)]
                          else []))))
      | None \<Rightarrow>
          (Inl (AssertionError (''got an unexpected build_recipe_type: '' @ sq @ ''None'' @ sq)),
           []))"






subsection \<open>Example descriptors\<close>

definition demo_input :: Image where
  "demo_input = \<lparr>
     cls = LanguageStackContainer, name = ''demo'', pretty_name = ''Demo'',
     package_name = ''demo-image'', os_version = SP5, exclusive_arch = None,
     is_latest = True, package_list = [PkgStr ''demo''], custom_end = [],
     config_sh_script = [], config_sh_interpreter = ''/bin/bash'', maintainer = None,
     extra_files = [], additional_names = [], build_recipe_type = None,
     image_properties = SLE_IMAGE_PROPS, version = VStr ''3.9'', stability_tag = None,
     additional_versions = [], version_in_uid = True \<rparr>"

definition init_input :: Image where
  "init_input = \<lparr>
     cls = OsContainer, name = ''init'', pretty_name = ''Init'',
     package_name = ''init-image'', os_version = SP5, exclusive_arch = None,
     is_latest = False, package_list = [PkgStr ''systemd''], custom_end = [],
     config_sh_script = [], config_sh_interpreter = ''/bin/bash'', maintainer = None,
     extra_files = [], additional_names = [], build_recipe_type = None,
     image_properties = SLE_IMAGE_PROPS, version = VStr [], stability_tag = None,
     additional_versions = [], version_in_uid = True \<rparr>"

definition demo_env :: Env where
  "demo_env = \<lparr>
     DOCKERFILE_TEMPLATE_render = (\<lambda>image. Inr (''FROM '' @ name image)),
     KIWI_TEMPLATE_render = (\<lambda>image. Inr (''<image name='' @ name image @ ''/>'')),
     SERVICE_TEMPLATE_render = (\<lambda>image. Inr ''<services/>''),
     now_year = ''2024'',
     now_changes_date = ''Mon Jan 01 00:00:00 UTC 2024'',
     realpath = (\<lambda>path. path),
     runs_after_raise = (\<lambda>task. True) \<rparr>"

subsection \<open>The constructed examples\<close>

definition demo_image :: Image where
  "demo_image = demo_input\<lparr>
     build_recipe_type := Some DOCKER,
     image_properties := SLE_IMAGE_PROPS,
     maintainer := Some ''SUSE LLC (https://www.suse.com/)'' \<rparr>"

definition init_image :: Image where
  "init_image = init_input\<lparr>
     build_recipe_type := Some DOCKER,
     image_properties := SLE_IMAGE_PROPS,
     maintainer := Some ''SUSE LLC (https://www.suse.com/)'' \<rparr>"

text \<open>
  The condition under which the loop of \<^verbatim>\<open>packages\<close> raises: a \<^verbatim>\<open>Package\<close> whose
  type is not \<^verbatim>\<open>PackageType.IMAGE\<close>.
\<close>

fun non_image_package :: "PackageEntry \<Rightarrow> bool" where
  "non_image_package (PkgStr s) = False"
| "non_image_package (PkgObj p) = (pkg_type p \<noteq> IMAGE)"

definition demo_other_input :: Image where
  "demo_other_input = demo_input\<lparr>
     pretty_name := ''Another Demo'', package_list := [PkgStr ''other''],
     image_properties := OPENSUSE_IMAGE_PROPS, maintainer := Some ''me'' \<rparr>"

definition demo_other_image :: Image where
  "demo_other_image = demo_other_input\<lparr>
     build_recipe_type := Some DOCKER, image_properties := SLE_IMAGE_PROPS \<rparr>"












text \<open>
  The input that takes its build type from \<^verbatim>\<open>OsVersion.SP3\<close>, the descriptor
  constructed from it, and the \<^verbatim>\<open>config.sh\<close> of that descriptor in the year 2024.
\<close>

definition sp3_input :: Image where
  "sp3_input = demo_input\<lparr>os_version := SP3\<rparr>"

definition sp3_image :: Image where
  "sp3_image = sp3_input\<lparr>
     build_recipe_type := Some KIWI,
     image_properties := SLE_15_SP3_LTSS_IMAGE_PROPS,
     maintainer := Some ''SUSE LLC (https://www.suse.com/)'' \<rparr>"

definition sp3_config_sh :: string where
  "sp3_config_sh = str_join nl
     [''#!/bin/bash'',
      ''# SPDX-License-Identifier: MIT'',
      ''# SPDX-FileCopyrightText: (c) 2022-2024 SUSE LLC'',
      '''',
      ''set -euo pipefail'',
      '''',
      ''test -f /.kconfig && . /.kconfig'',
      ''test -f /.profile && . /.profile'',
      '''',
      ''echo \"Configure image: [$kiwi_iname]...\"'',
      '''',
      ''#============================================'',
      ''# Import repositories' keys if rpm is present'',
      ''#--------------------------------------------'',
      ''if command -v rpm > /dev/null; then'',
      ''    suseImportBuildKey'',
      ''fi'',
      '''',
      '''',
      '''',
      ''#======================================='',
      ''# Clean up after zypper if it is present'',
      ''#---------------------------------------'',
      ''if command -v zypper > /dev/null; then'',
      ''    zypper -n clean'',
      ''fi'',
      '''',
      ''rm -rf /var/log/zypp'',
      '''',
      ''exit 0''] @ nl"

section \<open>Properties\<close>

subsection \<open>Construction of the examples\<close>

lemma construct_demo_input: "construct demo_input = Inr demo_image"
  by (simp add: construct_def LanguageStackContainer_post_init_def
      BaseContainerImage_post_init_def demo_input_def demo_image_def is_opensuse_def
      SLE_IMAGE_PROPS_def Let_def)

lemma construct_init_input: "construct init_input = Inr init_image"
  by (simp add: construct_def
      BaseContainerImage_post_init_def init_input_def init_image_def is_opensuse_def
      SLE_IMAGE_PROPS_def Let_def)

lemma local_in_exclusive_arch_ValueError:
  "local_in_exclusive_arch ea = Some e \<Longrightarrow> \<exists>msg. e = ValueError msg"
  by (cases ea) (auto split: if_splits)

lemma BaseContainerImage_post_init_both_set:
  assumes "custom_end self \<noteq> []" and "config_sh_script self \<noteq> []"
  shows "\<exists>msg. BaseContainerImage_post_init self = Inl (ValueError msg)"
proof (cases "package_list self = []")
  case True
  then show ?thesis by (simp add: BaseContainerImage_post_init_def)
next
  case False
  show ?thesis
  proof (cases "local_in_exclusive_arch (exclusive_arch self)")
    case None
    with False assms show ?thesis by (simp add: BaseContainerImage_post_init_def)
  next
    case (Some e)
    then obtain msg where "e = ValueError msg"
      using local_in_exclusive_arch_ValueError by blast
    with Some False show ?thesis by (simp add: BaseContainerImage_post_init_def)
  qed
qed

subsection \<open>Build tags and reference\<close>

text \<open>
  Claim C1. A language-stack descriptor with primary name \<^verbatim>\<open>demo\<close>, version label
  \<^verbatim>\<open>3.9\<close>, no stability tag, no additional names or versions and \<^verbatim>\<open>is_latest\<close> set
  has exactly three build tags, in this order: the version tag, the version tag with the
  release placeholder, and \<^verbatim>\<open>latest\<close>, each under the descriptor's registry prefix.
\<close>

theorem C1_build_tags:
  assumes "cls self = LanguageStackContainer \<or> cls self = ApplicationStackContainer"
    and "name self = ''demo''"
    and "version_label self = ''3.9''"
    and "stability_tag self = None"
    and "additional_names self = []"
    and "additional_versions self = []"
    and "is_latest self"
  shows "build_tags self =
           [registry_prefix self @ ''/demo:3.9'',
            registry_prefix self @ ''/demo:3.9-%RELEASE%'',
            registry_prefix self @ ''/demo:latest'']"
  using assms
  by (auto simp add: build_tags_def LanguageStackContainer_build_tags_def release_suffix_def
      stability_suffix_def)

theorem C1_build_tags_witness:
  "construct demo_input = Inr demo_image \<and>
   build_tags demo_image = [''bci/demo:3.9'', ''bci/demo:3.9-%RELEASE%'', ''bci/demo:latest'']"
proof -
  have "build_tags demo_image =
           [registry_prefix demo_image @ ''/demo:3.9'',
            registry_prefix demo_image @ ''/demo:3.9-%RELEASE%'',
            registry_prefix demo_image @ ''/demo:latest'']"
    by (rule C1_build_tags)
       (simp_all add: demo_image_def demo_input_def version_label_def)
  moreover have "registry_prefix demo_image = ''bci''"
    by (simp add: registry_prefix_def demo_image_def demo_input_def SLE_IMAGE_PROPS_def)
  ultimately show ?thesis
    by (simp add: construct_demo_input)
qed

text \<open>
  Claim C3. An OS-base descriptor with name \<^verbatim>\<open>init\<close>, registry prefix \<^verbatim>\<open>bci\<close>, no
  additional names and \<^verbatim>\<open>is_latest\<close> unset has exactly the two build tags
  \<^verbatim>\<open>bci/bci-init:%OS_VERSION_ID_SP%\<close> and \<^verbatim>\<open>bci/bci-init:%OS_VERSION_ID_SP%.%RELEASE%\<close>,
  and its version label is \<^verbatim>\<open>%OS_VERSION_ID_SP%.%RELEASE%\<close>.
\<close>

theorem C3_os_build_tags:
  assumes "cls self = OsContainer"
    and "name self = ''init''"
    and "registry_prefix self = ''bci''"
    and "additional_names self = []"
    and "\<not> is_latest self"
  shows "build_tags self =
           [''bci/bci-init:%OS_VERSION_ID_SP%'', ''bci/bci-init:%OS_VERSION_ID_SP%.%RELEASE%'']
         \<and> version_label self = ''%OS_VERSION_ID_SP%.%RELEASE%''"
  using assms
  by (simp add: build_tags_def OsContainer_build_tags_def version_label_def)

theorem C3_os_build_tags_witness:
  "construct init_input = Inr init_image \<and> registry_prefix init_image = ''bci'' \<and>
   build_tags init_image =
     [''bci/bci-init:%OS_VERSION_ID_SP%'', ''bci/bci-init:%OS_VERSION_ID_SP%.%RELEASE%'']
   \<and> version_label init_image = ''%OS_VERSION_ID_SP%.%RELEASE%''"
proof -
  have p: "registry_prefix init_image = ''bci''"
    by (simp add: registry_prefix_def init_image_def init_input_def SLE_IMAGE_PROPS_def)
  have "build_tags init_image =
           [''bci/bci-init:%OS_VERSION_ID_SP%'', ''bci/bci-init:%OS_VERSION_ID_SP%.%RELEASE%'']
         \<and> version_label init_image = ''%OS_VERSION_ID_SP%.%RELEASE%''"
    by (rule C3_os_build_tags) (simp_all add: p, simp_all add: init_image_def init_input_def)
  then show ?thesis
    using p construct_init_input by simp
qed

text \<open>
  Claim C4. The pull reference of a language-stack descriptor is
  \<^verbatim>\<open>{registry}/{prefix}/{name}:{version-label}-{release-suffix}\<close> with the primary name and
  the primary version label: whatever the additional names and additional versions are,
  they do not occur in it.
\<close>

theorem C4_reference:
  assumes "cls self = LanguageStackContainer \<or> cls self = ApplicationStackContainer"
  shows "reference (self\<lparr>additional_names := ns, additional_versions := vs\<rparr>) =
           image_registry self @ ''/'' @ registry_prefix self @ ''/'' @ name self
           @ '':'' @ version_label self @ ''-'' @ release_suffix self"
  using assms
  by (auto simp add: reference_def LanguageStackContainer_reference_def image_registry_def
      registry_prefix_def version_label_def release_suffix_def stability_suffix_def)

theorem C4_reference_witness:
  "reference (demo_image\<lparr>additional_names := [''alias''], additional_versions := [''3'']\<rparr>) =
     ''registry.suse.com/bci/demo:3.9-%RELEASE%''"
proof -
  have "cls demo_image = LanguageStackContainer \<or> cls demo_image = ApplicationStackContainer"
    by (simp add: demo_image_def demo_input_def)
  from C4_reference [OF this, where ns = "[''alias'']" and vs = "[''3'']"]
  show ?thesis
    by (simp add: image_registry_def registry_prefix_def version_label_def release_suffix_def
        stability_suffix_def demo_image_def demo_input_def SLE_IMAGE_PROPS_def)
qed

subsection \<open>Validation at construction\<close>

text \<open>
  Claim C5. Constructing a descriptor of any class with an empty package list fails with a
  \<^verbatim>\<open>ValueError\<close>; no descriptor, and so no default package list, comes out.
\<close>

theorem C5_empty_package_list:
  assumes "package_list self = []"
  shows "construct self =
           Inl (ValueError (''No packages were added to '' @ pretty_name self @ ''.''))"
  using assms
  by (simp add: construct_def LanguageStackContainer_post_init_def
      BaseContainerImage_post_init_def split: ContainerClass.splits)

theorem C5_empty_package_list_witness:
  "package_list (demo_input\<lparr>package_list := []\<rparr>) = [] \<and>
   construct (demo_input\<lparr>package_list := []\<rparr>) =
     Inl (ValueError ''No packages were added to Demo.'')"
proof -
  have h: "package_list (demo_input\<lparr>package_list := []\<rparr>) = []" by simp
  from C5_empty_package_list [OF h] show ?thesis
    by (simp add: demo_input_def)
qed

text \<open>
  Claim C6. Constructing a descriptor with both \<^verbatim>\<open>custom_end\<close> and
  \<^verbatim>\<open>config_sh_script\<close> non-empty fails with a \<^verbatim>\<open>ValueError\<close>.
\<close>

theorem C6_custom_end_and_config_script:
  assumes "custom_end self \<noteq> []" and "config_sh_script self \<noteq> []"
  shows "\<exists>msg. construct self = Inl (ValueError msg)"
proof -
  obtain msg where "BaseContainerImage_post_init self = Inl (ValueError msg)"
    using BaseContainerImage_post_init_both_set [OF assms] by blast
  then show ?thesis
    by (simp add: construct_def LanguageStackContainer_post_init_def
        split: ContainerClass.splits)
qed

theorem C6_custom_end_and_config_script_witness:
  "construct (demo_input\<lparr>custom_end := ''RUN true'', config_sh_script := ''true''\<rparr>) =
     Inl (ValueError
       ''Cannot specify both a custom_end and a config.sh script! Use just config_sh_script.'')"
proof -
  have "\<exists>msg. construct (demo_input\<lparr>custom_end := ''RUN true'', config_sh_script := ''true''\<rparr>)
          = Inl (ValueError msg)"
    by (rule C6_custom_end_and_config_script) simp_all
  then show ?thesis
    by (simp add: construct_def LanguageStackContainer_post_init_def
        BaseContainerImage_post_init_def demo_input_def)
qed

subsection \<open>The stability index\<close>

lemma str_nat_1: "str_nat (Suc 0) = ''1''"
  by code_simp

lemma str_nat_2: "str_nat (Suc (Suc 0)) = ''2''"
  by code_simp

lemma stability_suffix_stable:
  "stability_tag self = Some ''stable'' \<Longrightarrow> stability_suffix self = ''1''"
  by (simp add: stability_suffix_def STABILITY_TAG_ORDERING_def str_nat_1)

lemma stability_suffix_oldstable:
  "stability_tag self = Some ''oldstable'' \<Longrightarrow> stability_suffix self = ''2''"
  by (simp add: stability_suffix_def STABILITY_TAG_ORDERING_def str_nat_2)

lemma stability_suffix_None:
  "stability_tag self = None \<Longrightarrow> stability_suffix self = []"
  by (simp add: stability_suffix_def)

text \<open>
  Claim C2, as the code has it. The index in the release suffix is \<^verbatim>\<open>1\<close> for the
  stability tag \<^verbatim>\<open>stable\<close> and \<^verbatim>\<open>2\<close> for \<^verbatim>\<open>oldstable\<close>, so the two differ. With no
  stability tag there is no index at all: the stability suffix is empty and the release
  suffix is the bare \<^verbatim>\<open>%RELEASE%\<close>, not \<^verbatim>\<open>0.%RELEASE%\<close>. First the descriptor without a
  stability tag at which the index \<^verbatim>\<open>0\<close> of the claim is absent, then the amended claim.
\<close>

theorem C2_counterexample:
  "stability_tag demo_image = None \<and> stability_suffix demo_image \<noteq> ''0''
   \<and> release_suffix demo_image \<noteq> ''0.%RELEASE%''"
  by (simp add: release_suffix_def stability_suffix_def demo_image_def demo_input_def)

text \<open>
  Claim C2, amended: \<^verbatim>\<open>stable\<close> gives the index \<^verbatim>\<open>1\<close>, \<^verbatim>\<open>oldstable\<close> gives \<^verbatim>\<open>2\<close>, no
  stability tag gives no index, and the suffixes of a \<^verbatim>\<open>stable\<close> and an \<^verbatim>\<open>oldstable\<close>
  descriptor differ.
\<close>

theorem C2_stability_index:
  "(stability_tag self = Some ''stable'' \<longrightarrow>
      stability_suffix self = ''1'' \<and> release_suffix self = ''1.%RELEASE%'')
   \<and> (stability_tag self = Some ''oldstable'' \<longrightarrow>
      stability_suffix self = ''2'' \<and> release_suffix self = ''2.%RELEASE%'')
   \<and> (stability_tag self = None \<longrightarrow>
      stability_suffix self = [] \<and> release_suffix self = ''%RELEASE%'')
   \<and> (stability_tag a = Some ''stable'' \<and> stability_tag b = Some ''oldstable'' \<longrightarrow>
      stability_suffix a \<noteq> stability_suffix b \<and> release_suffix a \<noteq> release_suffix b)"
  by (simp add: release_suffix_def stability_suffix_stable stability_suffix_oldstable
      stability_suffix_None)

theorem C2_stability_index_witness:
  "release_suffix (demo_image\<lparr>stability_tag := Some ''stable''\<rparr>) = ''1.%RELEASE%''
   \<and> release_suffix (demo_image\<lparr>stability_tag := Some ''oldstable''\<rparr>) = ''2.%RELEASE%''
   \<and> release_suffix demo_image = ''%RELEASE%''
   \<and> release_suffix (demo_image\<lparr>stability_tag := Some ''stable''\<rparr>)
       \<noteq> release_suffix (demo_image\<lparr>stability_tag := Some ''oldstable''\<rparr>)"
proof -
  have n: "stability_tag demo_image = None"
    by (simp add: demo_image_def demo_input_def)
  show ?thesis
    using C2_stability_index [of "demo_image\<lparr>stability_tag := Some ''stable''\<rparr>"
        "demo_image\<lparr>stability_tag := Some ''stable''\<rparr>"
        "demo_image\<lparr>stability_tag := Some ''oldstable''\<rparr>"]
      C2_stability_index [of "demo_image\<lparr>stability_tag := Some ''oldstable''\<rparr>"
        "demo_image\<lparr>stability_tag := Some ''stable''\<rparr>"
        "demo_image\<lparr>stability_tag := Some ''oldstable''\<rparr>"]
      C2_stability_index [of demo_image
        "demo_image\<lparr>stability_tag := Some ''stable''\<rparr>"
        "demo_image\<lparr>stability_tag := Some ''oldstable''\<rparr>"] n
    by simp
qed

subsection \<open>Determinism of the derivations\<close>

lemma BaseContainerImage_post_init_Inr:
  assumes "BaseContainerImage_post_init x = Inr d"
  shows "d = x\<lparr>build_recipe_type :=
                (case build_recipe_type x of
                   None \<Rightarrow> Some (if os_version x = SP3 then KIWI else DOCKER)
                 | Some b \<Rightarrow> Some b),
              image_properties :=
                (if os_version x = TUMBLEWEED then OPENSUSE_IMAGE_PROPS
                 else if os_version x = BASALT then BASALT_IMAGE_PROPS
                 else if os_version x = SP3 then SLE_15_SP3_LTSS_IMAGE_PROPS
                 else SLE_IMAGE_PROPS),
              maintainer := maintainer d\<rparr>"
  using assms
  by (auto simp add: BaseContainerImage_post_init_def Let_def is_opensuse_def
      split: if_splits option.splits)

lemma construct_Inr:
  assumes "construct x = Inr d"
  shows "d = x\<lparr>build_recipe_type :=
                (case build_recipe_type x of
                   None \<Rightarrow> Some (if os_version x = SP3 then KIWI else DOCKER)
                 | Some b \<Rightarrow> Some b),
              image_properties :=
                (if os_version x = TUMBLEWEED then OPENSUSE_IMAGE_PROPS
                 else if os_version x = BASALT then BASALT_IMAGE_PROPS
                 else if os_version x = SP3 then SLE_15_SP3_LTSS_IMAGE_PROPS
                 else SLE_IMAGE_PROPS),
              maintainer := maintainer d\<rparr>"
proof -
  have "BaseContainerImage_post_init x = Inr d"
    using assms
    by (auto simp add: construct_def LanguageStackContainer_post_init_def
        split: ContainerClass.splits sum.splits if_splits)
  then show ?thesis by (rule BaseContainerImage_post_init_Inr)
qed

lemma construct_demo_other_input: "construct demo_other_input = Inr demo_other_image"
  by (simp add: construct_def LanguageStackContainer_post_init_def
      BaseContainerImage_post_init_def demo_input_def demo_other_input_def
      demo_other_image_def is_opensuse_def Let_def)

text \<open>
  Claim C9. The build tags and the reference of a constructed descriptor are functions of
  the construction inputs: two successful constructions from inputs that agree on the
  class, the name, the additional names, the version, the stability tag, the additional
  versions, \<^verbatim>\<open>is_latest\<close> and the OS version (in particular, from identical inputs) give
  the same build-tag list and the same reference.
\<close>

theorem C9_deterministic:
  assumes "construct x = Inr d" and "construct y = Inr e"
    and "cls x = cls y" and "name x = name y" and "additional_names x = additional_names y"
    and "version x = version y" and "stability_tag x = stability_tag y"
    and "additional_versions x = additional_versions y" and "is_latest x = is_latest y"
    and "os_version x = os_version y"
  shows "build_tags d = build_tags e \<and> reference d = reference e"
proof -
  note dx = construct_Inr [OF assms(1)] and ey = construct_Inr [OF assms(2)]
  have f: "cls d = cls e" "name d = name e" "additional_names d = additional_names e"
    "version d = version e" "stability_tag d = stability_tag e"
    "additional_versions d = additional_versions e" "is_latest d = is_latest e"
    "image_properties d = image_properties e"
    using assms(3-10) by (subst dx, subst ey, simp)+
  have s: "stability_suffix d = stability_suffix e"
    by (simp add: stability_suffix_def f)
  have r: "release_suffix d = release_suffix e"
    by (simp add: release_suffix_def s)
  have p: "registry_prefix d = registry_prefix e"
    by (simp add: registry_prefix_def f split: ContainerClass.splits)
  have v: "version_label d = version_label e"
    by (simp add: version_label_def f split: ContainerClass.splits)
  have g: "image_registry d = image_registry e"
    by (simp add: image_registry_def f)
  have "build_tags d = build_tags e"
    by (simp add: build_tags_def LanguageStackContainer_build_tags_def
        OsContainer_build_tags_def f r p v split: ContainerClass.splits)
  moreover have "reference d = reference e"
    by (simp add: reference_def LanguageStackContainer_reference_def
        OsContainer_reference_def f r p v g split: ContainerClass.splits)
  ultimately show ?thesis by simp
qed

theorem C9_deterministic_witness:
  "construct demo_input = Inr demo_image \<and> construct demo_other_input = Inr demo_other_image
   \<and> build_tags demo_image = build_tags demo_other_image
   \<and> reference demo_image = reference demo_other_image"
proof -
  have "build_tags demo_image = build_tags demo_other_image
        \<and> reference demo_image = reference demo_other_image"
    by (rule C9_deterministic [OF construct_demo_input construct_demo_other_input])
       (simp_all add: demo_other_input_def)
  then show ?thesis
    by (simp add: construct_demo_input construct_demo_other_input)
qed

subsection \<open>The package string\<close>

lemma packages_check_ValueError:
  "packages_check pkgs = Some e \<Longrightarrow> \<exists>msg. e = ValueError msg"
  by (induction pkgs rule: packages_check.induct) (auto split: if_splits)

lemma packages_check_None:
  "(packages_check pkgs = None) = (\<forall>pkg \<in> set pkgs. \<not> non_image_package pkg)"
  by (induction pkgs rule: packages_check.induct) auto

text \<open>
  Claim C10. If the package list holds a \<^verbatim>\<open>Package\<close> whose type is not \<^verbatim>\<open>IMAGE\<close>
  (that is \<^verbatim>\<open>bootstrap\<close>, \<^verbatim>\<open>delete\<close> or \<^verbatim>\<open>uninstall\<close>), \<^verbatim>\<open>packages\<close> raises a
  \<^verbatim>\<open>ValueError\<close>; if it holds only plain names and \<^verbatim>\<open>IMAGE\<close> packages, \<^verbatim>\<open>packages\<close>
  returns their names in list order, joined by single spaces.
\<close>

theorem C10_packages:
  "((\<exists>pkg \<in> set (package_list self). non_image_package pkg) \<longrightarrow>
      (\<exists>msg. packages self = Inl (ValueError msg)))
   \<and> ((\<forall>pkg \<in> set (package_list self). \<not> non_image_package pkg) \<longrightarrow>
      packages self = Inr (str_join '' '' (map PackageEntry_str (package_list self))))"
proof (cases "packages_check (package_list self)")
  case None
  then show ?thesis
    using packages_check_None [of "package_list self"] by (simp add: packages_def)
next
  case (Some e)
  then obtain msg where "e = ValueError msg"
    using packages_check_ValueError by blast
  with Some show ?thesis
    using packages_check_None [of "package_list self"] by (auto simp add: packages_def)
qed

theorem C10_packages_witness:
  "packages (demo_image\<lparr>package_list :=
      [PkgStr ''a'', PkgObj (Package ''b'' BOOTSTRAP), PkgStr ''c'']\<rparr>)
     = Inl (ValueError ''Cannot add a package of type bootstrap into a Dockerfile based build.'')
   \<and> packages (demo_image\<lparr>package_list :=
      [PkgStr ''a'', PkgObj (Package ''b'' IMAGE), PkgStr ''c'']\<rparr>) = Inr ''a b c''"
proof -
  have "\<exists>msg. packages (demo_image\<lparr>package_list :=
      [PkgStr ''a'', PkgObj (Package ''b'' BOOTSTRAP), PkgStr ''c'']\<rparr>) = Inl (ValueError msg)"
    using C10_packages [of "demo_image\<lparr>package_list :=
      [PkgStr ''a'', PkgObj (Package ''b'' BOOTSTRAP), PkgStr ''c'']\<rparr>"]
    by simp
  then have 1: "packages (demo_image\<lparr>package_list :=
      [PkgStr ''a'', PkgObj (Package ''b'' BOOTSTRAP), PkgStr ''c'']\<rparr>)
     = Inl (ValueError ''Cannot add a package of type bootstrap into a Dockerfile based build.'')"
    by (simp add: packages_def)
  have 2: "packages (demo_image\<lparr>package_list :=
      [PkgStr ''a'', PkgObj (Package ''b'' IMAGE), PkgStr ''c'']\<rparr>) = Inr ''a b c''"
    using C10_packages [of "demo_image\<lparr>package_list :=
      [PkgStr ''a'', PkgObj (Package ''b'' IMAGE), PkgStr ''c'']\<rparr>"]
    by simp
  from 1 2 show ?thesis by simp
qed

subsection \<open>The selected build description\<close>

lemma config_sh_nonempty: "config_sh env self = Inr sh \<Longrightarrow> sh \<noteq> []"
  by (auto simp add: config_sh_def nl_def split: if_splits)

lemma config_sh_raises:
  "config_sh_script self = [] \<and> custom_end self \<noteq> [] \<Longrightarrow>
   config_sh env self =
     Inl (ValueError ''This image cannot be build as a kiwi image, it has a `custom_end` set.'')"
  by (simp add: config_sh_def)

lemma config_sh_returns:
  assumes "\<not> (config_sh_script self = [] \<and> custom_end self \<noteq> [])"
  shows "\<exists>sh. config_sh env self = Inr sh \<and> sh \<noteq> []"
proof -
  have "\<exists>sh. config_sh env self = Inr sh"
    using assms by (simp add: config_sh_def)
  then show ?thesis using config_sh_nonempty by blast
qed

lemma build_description_tasks_DOCKER:
  assumes "build_recipe_type self = Some DOCKER"
    and "DOCKERFILE_TEMPLATE_render env self = Inr t" and "t \<noteq> []"
  shows "build_description_tasks env self dest =
           (Inr [''Dockerfile''],
            [(path_join dest ''Dockerfile'',
              Text (if last t \<noteq> CHR 0x0A then t @ nl else t))])"
  using assms by (simp add: build_description_tasks_def)

lemma build_description_tasks_KIWI:
  assumes "build_recipe_type self = Some KIWI"
    and "KIWI_TEMPLATE_render env self = Inr k" and "config_sh env self = Inr sh"
  shows "build_description_tasks env self dest =
           (Inr [package_name self @ ''.kiwi'', ''config.sh''],
            [(path_join dest (package_name self @ ''.kiwi''), Text k),
             (path_join dest ''config.sh'', Text sh)])"
  using assms config_sh_nonempty [OF assms(3)] by (simp add: build_description_tasks_def)

lemma build_description_tasks_KIWI_raises:
  assumes "build_recipe_type self = Some KIWI"
    and "KIWI_TEMPLATE_render env self = Inr k" and "config_sh env self = Inl e"
  shows "build_description_tasks env self dest =
           (Inl e, [(path_join dest (package_name self @ ''.kiwi''), Text k)])"
  using assms by (simp add: build_description_tasks_def)

lemma build_description_tasks_Inr:
  assumes "build_description_tasks env self dest = (Inr files1, tasks1)"
  shows "(build_recipe_type self = Some DOCKER \<and> files1 = [''Dockerfile'']
            \<and> (\<exists>t. DOCKERFILE_TEMPLATE_render env self = Inr t \<and> t \<noteq> []
                  \<and> tasks1 = [(path_join dest ''Dockerfile'',
                                Text (if last t \<noteq> CHR 0x0A then t @ nl else t))]))
         \<or> (build_recipe_type self = Some KIWI
            \<and> files1 = [package_name self @ ''.kiwi'', ''config.sh'']
            \<and> (\<exists>k sh. KIWI_TEMPLATE_render env self = Inr k \<and> config_sh env self = Inr sh
                  \<and> tasks1 = [(path_join dest (package_name self @ ''.kiwi''), Text k),
                               (path_join dest ''config.sh'', Text sh)]))"
  using assms
  by (auto simp add: build_description_tasks_def
      split: option.splits BuildType.splits sum.splits if_splits dest: config_sh_nonempty)

lemma construct_sp3_input: "construct sp3_input = Inr sp3_image"
  by (simp add: construct_def LanguageStackContainer_post_init_def
      BaseContainerImage_post_init_def demo_input_def sp3_input_def sp3_image_def
      is_opensuse_def SLE_15_SP3_LTSS_IMAGE_PROPS_def Let_def)

lemma config_sh_sp3: "config_sh demo_env sp3_image = Inr sp3_config_sh"
  by (simp add: config_sh_def sp3_config_sh_def demo_env_def sp3_image_def sp3_input_def
      demo_input_def BASH_SET_def)

text \<open>
  Claim C7. After a successful construction \<^verbatim>\<open>build_recipe_type\<close> is set, to
  \<^verbatim>\<open>DOCKER\<close> or to \<^verbatim>\<open>KIWI\<close>: the value given at construction, or, when none was given,
  \<^verbatim>\<open>KIWI\<close> for \<^verbatim>\<open>OsVersion.SP3\<close> and \<^verbatim>\<open>DOCKER\<close> for every other OS version. The
  field selects the build description. For \<^verbatim>\<open>DOCKER\<close> a rendered, non-empty Dockerfile
  is the one file emitted, ending in a newline. For \<^verbatim>\<open>KIWI\<close> the rendered \<^verbatim>\<open>.kiwi\<close>
  description is emitted together with \<^verbatim>\<open>config.sh\<close>, unless the descriptor has a
  \<^verbatim>\<open>custom_end\<close> and no \<^verbatim>\<open>config_sh_script\<close>, where \<^verbatim>\<open>config_sh\<close> raises. Whenever the
  branch returns, its files are those of exactly one of the two formats.
\<close>

theorem C7_build_recipe_type:
  assumes "construct x = Inr d"
  shows "(build_recipe_type d = Some DOCKER \<or> build_recipe_type d = Some KIWI)
     \<and> build_recipe_type d =
         (case build_recipe_type x of
            None \<Rightarrow> Some (if os_version x = SP3 then KIWI else DOCKER)
          | Some b \<Rightarrow> Some b)
     \<and> (build_recipe_type d = Some DOCKER \<longrightarrow>
          (\<forall>t. DOCKERFILE_TEMPLATE_render env d = Inr t \<longrightarrow> t \<noteq> [] \<longrightarrow>
             build_description_tasks env d dest =
               (Inr [''Dockerfile''],
                [(path_join dest ''Dockerfile'',
                  Text (if last t \<noteq> CHR 0x0A then t @ nl else t))])))
     \<and> (build_recipe_type d = Some KIWI \<longrightarrow>
          (\<forall>k. KIWI_TEMPLATE_render env d = Inr k \<longrightarrow>
             (if config_sh_script d = [] \<and> custom_end d \<noteq> []
              then build_description_tasks env d dest =
                     (Inl (ValueError
                        ''This image cannot be build as a kiwi image, it has a `custom_end` set.''),
                      [(path_join dest (package_name d @ ''.kiwi''), Text k)])
              else \<exists>sh. config_sh env d = Inr sh
                     \<and> build_description_tasks env d dest =
                         (Inr [package_name d @ ''.kiwi'', ''config.sh''],
                          [(path_join dest (package_name d @ ''.kiwi''), Text k),
                           (path_join dest ''config.sh'', Text sh)]))))
     \<and> (\<forall>files tasks. build_description_tasks env d dest = (Inr files, tasks) \<longrightarrow>
          (build_recipe_type d = Some DOCKER \<and> files = [''Dockerfile''])
          \<or> (build_recipe_type d = Some KIWI
              \<and> files = [package_name d @ ''.kiwi'', ''config.sh'']))"
proof -
  have e: "build_recipe_type d =
         (case build_recipe_type x of
            None \<Rightarrow> Some (if os_version x = SP3 then KIWI else DOCKER)
          | Some b \<Rightarrow> Some b)"
    by (subst construct_Inr [OF assms]) simp
  then have o: "build_recipe_type d = Some DOCKER \<or> build_recipe_type d = Some KIWI"
    by (cases "build_recipe_type x"; cases "the (build_recipe_type x)") auto
  have dk: "build_recipe_type d = Some DOCKER \<longrightarrow>
          (\<forall>t. DOCKERFILE_TEMPLATE_render env d = Inr t \<longrightarrow> t \<noteq> [] \<longrightarrow>
             build_description_tasks env d dest =
               (Inr [''Dockerfile''],
                [(path_join dest ''Dockerfile'',
                  Text (if last t \<noteq> CHR 0x0A then t @ nl else t))]))"
    using build_description_tasks_DOCKER [of d env _ dest] by blast
  have kw: "build_recipe_type d = Some KIWI \<longrightarrow>
          (\<forall>k. KIWI_TEMPLATE_render env d = Inr k \<longrightarrow>
             (if config_sh_script d = [] \<and> custom_end d \<noteq> []
              then build_description_tasks env d dest =
                     (Inl (ValueError
                        ''This image cannot be build as a kiwi image, it has a `custom_end` set.''),
                      [(path_join dest (package_name d @ ''.kiwi''), Text k)])
              else \<exists>sh. config_sh env d = Inr sh
                     \<and> build_description_tasks env d dest =
                         (Inr [package_name d @ ''.kiwi'', ''config.sh''],
                          [(path_join dest (package_name d @ ''.kiwi''), Text k),
                           (path_join dest ''config.sh'', Text sh)])))"
  proof (intro impI allI)
    fix k
    assume K: "build_recipe_type d = Some KIWI" and R: "KIWI_TEMPLATE_render env d = Inr k"
    show "if config_sh_script d = [] \<and> custom_end d \<noteq> []
              then build_description_tasks env d dest =
                     (Inl (ValueError
                        ''This image cannot be build as a kiwi image, it has a `custom_end` set.''),
                      [(path_join dest (package_name d @ ''.kiwi''), Text k)])
              else \<exists>sh. config_sh env d = Inr sh
                     \<and> build_description_tasks env d dest =
                         (Inr [package_name d @ ''.kiwi'', ''config.sh''],
                          [(path_join dest (package_name d @ ''.kiwi''), Text k),
                           (path_join dest ''config.sh'', Text sh)])"
    proof (cases "config_sh_script d = [] \<and> custom_end d \<noteq> []")
      case True
      have "build_description_tasks env d dest =
              (Inl (ValueError
                 ''This image cannot be build as a kiwi image, it has a `custom_end` set.''),
               [(path_join dest (package_name d @ ''.kiwi''), Text k)])"
        using K R config_sh_raises [OF True, of env]
        by (rule build_description_tasks_KIWI_raises)
      with True show ?thesis by simp
    next
      case False
      then obtain sh where S: "config_sh env d = Inr sh"
        using config_sh_returns [of d env] by blast
      have "build_description_tasks env d dest =
              (Inr [package_name d @ ''.kiwi'', ''config.sh''],
               [(path_join dest (package_name d @ ''.kiwi''), Text k),
                (path_join dest ''config.sh'', Text sh)])"
        using K R S by (rule build_description_tasks_KIWI)
      with S False show ?thesis by auto
    qed
  qed
  have s: "\<forall>files tasks. build_description_tasks env d dest = (Inr files, tasks) \<longrightarrow>
          (build_recipe_type d = Some DOCKER \<and> files = [''Dockerfile''])
          \<or> (build_recipe_type d = Some KIWI
              \<and> files = [package_name d @ ''.kiwi'', ''config.sh''])"
    using build_description_tasks_Inr [of env d dest] by blast
  from o e dk kw s show ?thesis by (intro conjI)
qed

theorem C7_build_recipe_type_witness:
  "construct demo_input = Inr demo_image \<and> build_recipe_type demo_input = None
   \<and> build_recipe_type demo_image = Some DOCKER
   \<and> build_description_tasks demo_env demo_image ''/tmp/out'' =
       (Inr [''Dockerfile''], [(''/tmp/out/Dockerfile'', Text (''FROM demo'' @ nl))])
   \<and> construct sp3_input = Inr sp3_image \<and> build_recipe_type sp3_input = None
   \<and> build_recipe_type sp3_image = Some KIWI
   \<and> build_description_tasks demo_env sp3_image ''/tmp/out'' =
       (Inr [''demo-image.kiwi'', ''config.sh''],
        [(''/tmp/out/demo-image.kiwi'', Text ''<image name=demo/>''),
         (''/tmp/out/config.sh'', Text sp3_config_sh)])"
proof -
  note d = C7_build_recipe_type [OF construct_demo_input, of demo_env "''/tmp/out''"]
  note k = C7_build_recipe_type [OF construct_sp3_input, of demo_env "''/tmp/out''"]
  have n: "build_recipe_type demo_input = None" "os_version demo_input \<noteq> SP3"
    "build_recipe_type sp3_input = None" "os_version sp3_input = SP3"
    by (simp_all add: demo_input_def sp3_input_def)
  from d n have 1: "build_recipe_type demo_image = Some DOCKER" by simp
  from k n have 2: "build_recipe_type sp3_image = Some KIWI" by simp
  have r: "DOCKERFILE_TEMPLATE_render demo_env demo_image = Inr ''FROM demo''"
    "KIWI_TEMPLATE_render demo_env sp3_image = Inr ''<image name=demo/>''"
    by (simp_all add: demo_env_def demo_image_def sp3_image_def sp3_input_def demo_input_def)
  have p: "path_join ''/tmp/out'' ''Dockerfile'' = ''/tmp/out/Dockerfile''"
    "path_join ''/tmp/out'' (package_name sp3_image @ ''.kiwi'') = ''/tmp/out/demo-image.kiwi''"
    "path_join ''/tmp/out'' ''config.sh'' = ''/tmp/out/config.sh''"
    "package_name sp3_image @ ''.kiwi'' = ''demo-image.kiwi''"
    "path_join ''/tmp/out'' ''demo-image.kiwi'' = ''/tmp/out/demo-image.kiwi''"
    by (simp_all add: path_join_def sp3_image_def sp3_input_def demo_input_def)
  have c: "config_sh_script sp3_image = []" "custom_end sp3_image = []"
    by (simp_all add: sp3_image_def sp3_input_def demo_input_def)
  note dD = d [THEN conjunct2, THEN conjunct2, THEN conjunct1, rule_format, OF 1 r(1)]
  note kK = k [THEN conjunct2, THEN conjunct2, THEN conjunct2, THEN conjunct1, rule_format,
      OF 2 r(2)]
  have "build_description_tasks demo_env demo_image ''/tmp/out'' =
       (Inr [''Dockerfile''],
        [(path_join ''/tmp/out'' ''Dockerfile'',
          Text (if last ''FROM demo'' \<noteq> CHR 0x0A then ''FROM demo'' @ nl else ''FROM demo''))])"
    by (rule dD) simp
  then have 3: "build_description_tasks demo_env demo_image ''/tmp/out'' =
       (Inr [''Dockerfile''], [(''/tmp/out/Dockerfile'', Text (''FROM demo'' @ nl))])"
    by (simp add: p)
  have "\<exists>sh. config_sh demo_env sp3_image = Inr sh
      \<and> build_description_tasks demo_env sp3_image ''/tmp/out'' =
       (Inr [package_name sp3_image @ ''.kiwi'', ''config.sh''],
        [(path_join ''/tmp/out'' (package_name sp3_image @ ''.kiwi''), Text ''<image name=demo/>''),
         (path_join ''/tmp/out'' ''config.sh'', Text sh)])"
    using kK by (simp only: c) simp
  then obtain sh where sh: "config_sh demo_env sp3_image = Inr sh"
    and b: "build_description_tasks demo_env sp3_image ''/tmp/out'' =
       (Inr [package_name sp3_image @ ''.kiwi'', ''config.sh''],
        [(path_join ''/tmp/out'' (package_name sp3_image @ ''.kiwi''), Text ''<image name=demo/>''),
         (path_join ''/tmp/out'' ''config.sh'', Text sh)])"
    by blast
  from sh have "sh = sp3_config_sh" by (simp only: config_sh_sp3 sum.inject)
  with b have 4: "build_description_tasks demo_env sp3_image ''/tmp/out'' =
       (Inr [''demo-image.kiwi'', ''config.sh''],
        [(''/tmp/out/demo-image.kiwi'', Text ''<image name=demo/>''),
         (''/tmp/out/config.sh'', Text sp3_config_sh)])"
    by (simp only: p)
  from 1 2 3 4 n(1,3) construct_demo_input construct_sp3_input show ?thesis
    by (intro conjI)
qed

subsection \<open>An existing changelog\<close>





















end
